theory Spec2Isabelle
  imports Main "HOL-Library.Word" "HOL-Library.Sublist"
begin

unbundle bit_operations_syntax

section \<open>Package layers, file enums.go: data model\<close>

text \<open>
  A Go call either returns a value or panics (index out of range, method call on a nil
  interface). Both runtime panics that the file can raise are constructors of
  \<open>panic\<close>.
\<close>

datatype panic = IndexOutOfRange | NilDereference

datatype 'a exec = Returns 'a | Panics panic

text \<open>
  A Go \<open>error\<close> built by \<open>errors.New\<close> or \<open>fmt.Errorf\<close> is its message; the
  \<open>nil\<close> error is \<open>None\<close>.
\<close>

type_synonym error = string
type_synonym byte = "8 word"

text \<open>
  \<open>gopacket.Decoder\<close>: \<open>Decode(data []byte, p PacketBuilder) error\<close>. The packet
  builder \<open>'p\<close> is mutated by the call, so the call returns it next to the error.
\<close>

type_synonym 'p Decoder = "byte list \<Rightarrow> 'p \<Rightarrow> (error option \<times> 'p) exec"

text \<open>\<open>gopacket.LayerType\<close> is an \<open>int64\<close>.\<close>

type_synonym LayerType = "64 word"

text \<open>
  \<open>EnumMetadata\<close>. \<open>DecodeWith\<close> is an interface value, which may be \<open>nil\<close>.
\<close>

record 'p EnumMetadata =
  DecodeWith :: "'p Decoder option"
  Name :: string
  LayerType :: LayerType

text \<open>The zero value of the struct, which a package-level \<open>var\<close> starts with.\<close>

definition zero_EnumMetadata :: "'p EnumMetadata" where
  "zero_EnumMetadata = \<lparr>DecodeWith = None, Name = [], LayerType = 0\<rparr>"

text \<open>Calling \<open>m.DecodeWith.Decode(data, p)\<close>: a nil interface panics.\<close>

definition call_DecodeWith :: "'p EnumMetadata \<Rightarrow> 'p Decoder" where
  "call_DecodeWith m data p =
     (case DecodeWith m of
        None \<Rightarrow> Panics NilDereference
      | Some d \<Rightarrow> d data p)"

text \<open>\<open>errorFunc\<close>: a decoder that returns the error with the given message.\<close>

definition errorFunc :: "string \<Rightarrow> 'p Decoder" where
  "errorFunc msg = (\<lambda>data p. Returns (Some msg, p))"

subsection \<open>Enumeration types and constants\<close>

type_synonym EthernetType = "16 word"
type_synonym IPProtocol = "8 word"
type_synonym LinkType = "8 word"
type_synonym PPPoECode = "8 word"
type_synonym PPPType = "16 word"
type_synonym SCTPChunkType = "8 word"
type_synonym FDDIFrameControl = "8 word"
type_synonym EAPOLType = "8 word"
type_synonym ProtocolFamily = "8 word"
type_synonym Dot11Type = "8 word"

definition EthernetTypeLLC :: EthernetType where "EthernetTypeLLC = 0"
definition EthernetTypeIPv4 :: EthernetType where "EthernetTypeIPv4 = 0x0800"
definition EthernetTypeARP :: EthernetType where "EthernetTypeARP = 0x0806"
definition EthernetTypeIPv6 :: EthernetType where "EthernetTypeIPv6 = 0x86DD"
definition EthernetTypeCiscoDiscovery :: EthernetType where "EthernetTypeCiscoDiscovery = 0x2000"
definition EthernetTypeNortelDiscovery :: EthernetType where "EthernetTypeNortelDiscovery = 0x01a2"
definition EthernetTypeTransparentEthernetBridging :: EthernetType where
  "EthernetTypeTransparentEthernetBridging = 0x6558"
definition EthernetTypeDot1Q :: EthernetType where "EthernetTypeDot1Q = 0x8100"
definition EthernetTypePPPoEDiscovery :: EthernetType where "EthernetTypePPPoEDiscovery = 0x8863"
definition EthernetTypePPPoESession :: EthernetType where "EthernetTypePPPoESession = 0x8864"
definition EthernetTypeMPLSUnicast :: EthernetType where "EthernetTypeMPLSUnicast = 0x8847"
definition EthernetTypeMPLSMulticast :: EthernetType where "EthernetTypeMPLSMulticast = 0x8848"
definition EthernetTypeEAPOL :: EthernetType where "EthernetTypeEAPOL = 0x888e"
definition EthernetTypeQinQ :: EthernetType where "EthernetTypeQinQ = 0x88a8"
definition EthernetTypeLinkLayerDiscovery :: EthernetType where
  "EthernetTypeLinkLayerDiscovery = 0x88cc"
definition EthernetTypeEthernetCTP :: EthernetType where "EthernetTypeEthernetCTP = 0x9000"

definition IPProtocolIPv6HopByHop :: IPProtocol where "IPProtocolIPv6HopByHop = 0"
definition IPProtocolICMPv4 :: IPProtocol where "IPProtocolICMPv4 = 1"
definition IPProtocolIGMP :: IPProtocol where "IPProtocolIGMP = 2"
definition IPProtocolIPv4 :: IPProtocol where "IPProtocolIPv4 = 4"
definition IPProtocolTCP :: IPProtocol where "IPProtocolTCP = 6"
definition IPProtocolUDP :: IPProtocol where "IPProtocolUDP = 17"
definition IPProtocolRUDP :: IPProtocol where "IPProtocolRUDP = 27"
definition IPProtocolIPv6 :: IPProtocol where "IPProtocolIPv6 = 41"
definition IPProtocolIPv6Routing :: IPProtocol where "IPProtocolIPv6Routing = 43"
definition IPProtocolIPv6Fragment :: IPProtocol where "IPProtocolIPv6Fragment = 44"
definition IPProtocolGRE :: IPProtocol where "IPProtocolGRE = 47"
definition IPProtocolESP :: IPProtocol where "IPProtocolESP = 50"
definition IPProtocolAH :: IPProtocol where "IPProtocolAH = 51"
definition IPProtocolICMPv6 :: IPProtocol where "IPProtocolICMPv6 = 58"
definition IPProtocolNoNextHeader :: IPProtocol where "IPProtocolNoNextHeader = 59"
definition IPProtocolIPv6Destination :: IPProtocol where "IPProtocolIPv6Destination = 60"
definition IPProtocolIPIP :: IPProtocol where "IPProtocolIPIP = 94"
definition IPProtocolEtherIP :: IPProtocol where "IPProtocolEtherIP = 97"
definition IPProtocolVRRP :: IPProtocol where "IPProtocolVRRP = 112"
definition IPProtocolSCTP :: IPProtocol where "IPProtocolSCTP = 132"
definition IPProtocolUDPLite :: IPProtocol where "IPProtocolUDPLite = 136"
definition IPProtocolMPLSInIP :: IPProtocol where "IPProtocolMPLSInIP = 137"

definition LinkTypeNull :: LinkType where "LinkTypeNull = 0"
definition LinkTypeEthernet :: LinkType where "LinkTypeEthernet = 1"
definition LinkTypeTokenRing :: LinkType where "LinkTypeTokenRing = 6"
definition LinkTypeArcNet :: LinkType where "LinkTypeArcNet = 7"
definition LinkTypeSLIP :: LinkType where "LinkTypeSLIP = 8"
definition LinkTypePPP :: LinkType where "LinkTypePPP = 9"
definition LinkTypeFDDI :: LinkType where "LinkTypeFDDI = 10"
definition LinkTypeATM_RFC1483 :: LinkType where "LinkTypeATM_RFC1483 = 100"
definition LinkTypeRaw :: LinkType where "LinkTypeRaw = 101"
definition LinkTypePPP_HDLC :: LinkType where "LinkTypePPP_HDLC = 50"
definition LinkTypePPPEthernet :: LinkType where "LinkTypePPPEthernet = 51"
definition LinkTypeC_HDLC :: LinkType where "LinkTypeC_HDLC = 104"
definition LinkTypeIEEE802_11 :: LinkType where "LinkTypeIEEE802_11 = 105"
definition LinkTypeFRelay :: LinkType where "LinkTypeFRelay = 107"
definition LinkTypeLoop :: LinkType where "LinkTypeLoop = 108"
definition LinkTypeLinuxSLL :: LinkType where "LinkTypeLinuxSLL = 113"
definition LinkTypeLTalk :: LinkType where "LinkTypeLTalk = 104"
definition LinkTypePFLog :: LinkType where "LinkTypePFLog = 117"
definition LinkTypePrismHeader :: LinkType where "LinkTypePrismHeader = 119"
definition LinkTypeIPOverFC :: LinkType where "LinkTypeIPOverFC = 122"
definition LinkTypeSunATM :: LinkType where "LinkTypeSunATM = 123"
definition LinkTypeIEEE80211Radio :: LinkType where "LinkTypeIEEE80211Radio = 127"
definition LinkTypeARCNetLinux :: LinkType where "LinkTypeARCNetLinux = 129"
definition LinkTypeLinuxIRDA :: LinkType where "LinkTypeLinuxIRDA = 144"
definition LinkTypeLinuxLAPD :: LinkType where "LinkTypeLinuxLAPD = 177"
definition LinkTypeLinuxUSB :: LinkType where "LinkTypeLinuxUSB = 220"
definition LinkTypeIPv4 :: LinkType where "LinkTypeIPv4 = 228"
definition LinkTypeIPv6 :: LinkType where "LinkTypeIPv6 = 229"

definition PPPTypeIPv4 :: PPPType where "PPPTypeIPv4 = 0x0021"
definition PPPTypeIPv6 :: PPPType where "PPPTypeIPv6 = 0x0057"
definition PPPTypeMPLSUnicast :: PPPType where "PPPTypeMPLSUnicast = 0x0281"
definition PPPTypeMPLSMulticast :: PPPType where "PPPTypeMPLSMulticast = 0x0283"

subsection \<open>802.11 type and subtype\<close>

definition Dot11TypeMgmt :: Dot11Type where "Dot11TypeMgmt = 0x00"
definition Dot11TypeCtrl :: Dot11Type where "Dot11TypeCtrl = 0x01"
definition Dot11TypeData :: Dot11Type where "Dot11TypeData = 0x02"
definition Dot11TypeReserved :: Dot11Type where "Dot11TypeReserved = 0x03"
definition dot11TypeMask :: Dot11Type where "dot11TypeMask = 0x03"
definition Dot11TypeMgmtAssociationReq :: Dot11Type where "Dot11TypeMgmtAssociationReq = 0x00"
definition Dot11TypeMgmtBeacon :: Dot11Type where "Dot11TypeMgmtBeacon = 0x20"
definition Dot11TypeCtrlBlockAckReq :: Dot11Type where "Dot11TypeCtrlBlockAckReq = 0x21"
definition Dot11TypeDataQOSData :: Dot11Type where "Dot11TypeDataQOSData = 0x22"

text \<open>\<open>func (d Dot11Type) MainType() Dot11Type\<close>\<close>

definition MainType :: "Dot11Type \<Rightarrow> Dot11Type" where
  "MainType d = d AND dot11TypeMask"

section \<open>The per-family metadata variables\<close>

text \<open>
  The package-level \<open>var\<close> block: one \<open>EnumMetadata\<close> value per enumeration
  type. The variables are process-wide state, so every function that reads or writes
  them takes the record of all of them.
\<close>

record 'p globals =
  EthernetTypeMetadata :: "'p EnumMetadata"
  IPProtocolMetadata :: "'p EnumMetadata"
  SCTPChunkTypeMetadata :: "'p EnumMetadata"
  PPPTypeMetadata :: "'p EnumMetadata"
  PPPoECodeMetadata :: "'p EnumMetadata"
  LinkTypeMetadata :: "'p EnumMetadata"
  FDDIFrameControlMetadata :: "'p EnumMetadata"
  EAPOLTypeMetadata :: "'p EnumMetadata"
  ProtocolFamilyMetadata :: "'p EnumMetadata"
  Dot11TypeMetadata :: "'p EnumMetadata"
  USBTypeMetadata :: "'p EnumMetadata"

text \<open>The variables before any \<open>init\<close> has run: every one is the zero struct.\<close>

definition zero_globals :: "'p globals" where
  "zero_globals =
     \<lparr>EthernetTypeMetadata = zero_EnumMetadata, IPProtocolMetadata = zero_EnumMetadata,
      SCTPChunkTypeMetadata = zero_EnumMetadata, PPPTypeMetadata = zero_EnumMetadata,
      PPPoECodeMetadata = zero_EnumMetadata, LinkTypeMetadata = zero_EnumMetadata,
      FDDIFrameControlMetadata = zero_EnumMetadata, EAPOLTypeMetadata = zero_EnumMetadata,
      ProtocolFamilyMetadata = zero_EnumMetadata, Dot11TypeMetadata = zero_EnumMetadata,
      USBTypeMetadata = zero_EnumMetadata\<rparr>"

subsection \<open>The forwarding methods\<close>

text \<open>
  Each method has the receiver \<open>a\<close> as its second argument, as in the source, where the
  body reads the family's variable and does not use \<open>a\<close>.
\<close>

definition EthernetType_Decode :: "'p globals \<Rightarrow> EthernetType \<Rightarrow> 'p Decoder" where
  "EthernetType_Decode g a data p = call_DecodeWith (EthernetTypeMetadata g) data p"

definition EthernetType_String :: "'p globals \<Rightarrow> EthernetType \<Rightarrow> string" where
  "EthernetType_String g a = Name (EthernetTypeMetadata g)"

definition EthernetType_LayerType :: "'p globals \<Rightarrow> EthernetType \<Rightarrow> LayerType" where
  "EthernetType_LayerType g a = LayerType (EthernetTypeMetadata g)"

definition IPProtocol_Decode :: "'p globals \<Rightarrow> IPProtocol \<Rightarrow> 'p Decoder" where
  "IPProtocol_Decode g a data p = call_DecodeWith (IPProtocolMetadata g) data p"

definition IPProtocol_String :: "'p globals \<Rightarrow> IPProtocol \<Rightarrow> string" where
  "IPProtocol_String g a = Name (IPProtocolMetadata g)"

definition IPProtocol_LayerType :: "'p globals \<Rightarrow> IPProtocol \<Rightarrow> LayerType" where
  "IPProtocol_LayerType g a = LayerType (IPProtocolMetadata g)"

definition SCTPChunkType_Decode :: "'p globals \<Rightarrow> SCTPChunkType \<Rightarrow> 'p Decoder" where
  "SCTPChunkType_Decode g a data p = call_DecodeWith (SCTPChunkTypeMetadata g) data p"

definition SCTPChunkType_String :: "'p globals \<Rightarrow> SCTPChunkType \<Rightarrow> string" where
  "SCTPChunkType_String g a = Name (SCTPChunkTypeMetadata g)"

definition PPPType_Decode :: "'p globals \<Rightarrow> PPPType \<Rightarrow> 'p Decoder" where
  "PPPType_Decode g a data p = call_DecodeWith (PPPTypeMetadata g) data p"

definition PPPType_String :: "'p globals \<Rightarrow> PPPType \<Rightarrow> string" where
  "PPPType_String g a = Name (PPPTypeMetadata g)"

definition LinkType_Decode :: "'p globals \<Rightarrow> LinkType \<Rightarrow> 'p Decoder" where
  "LinkType_Decode g a data p = call_DecodeWith (LinkTypeMetadata g) data p"

definition LinkType_String :: "'p globals \<Rightarrow> LinkType \<Rightarrow> string" where
  "LinkType_String g a = Name (LinkTypeMetadata g)"

definition PPPoECode_Decode :: "'p globals \<Rightarrow> PPPoECode \<Rightarrow> 'p Decoder" where
  "PPPoECode_Decode g a data p = call_DecodeWith (PPPoECodeMetadata g) data p"

definition PPPoECode_String :: "'p globals \<Rightarrow> PPPoECode \<Rightarrow> string" where
  "PPPoECode_String g a = Name (PPPoECodeMetadata g)"

definition FDDIFrameControl_Decode :: "'p globals \<Rightarrow> FDDIFrameControl \<Rightarrow> 'p Decoder" where
  "FDDIFrameControl_Decode g a data p = call_DecodeWith (FDDIFrameControlMetadata g) data p"

definition FDDIFrameControl_String :: "'p globals \<Rightarrow> FDDIFrameControl \<Rightarrow> string" where
  "FDDIFrameControl_String g a = Name (FDDIFrameControlMetadata g)"

definition EAPOLType_Decode :: "'p globals \<Rightarrow> EAPOLType \<Rightarrow> 'p Decoder" where
  "EAPOLType_Decode g a data p = call_DecodeWith (EAPOLTypeMetadata g) data p"

definition EAPOLType_String :: "'p globals \<Rightarrow> EAPOLType \<Rightarrow> string" where
  "EAPOLType_String g a = Name (EAPOLTypeMetadata g)"

definition EAPOLType_LayerType :: "'p globals \<Rightarrow> EAPOLType \<Rightarrow> LayerType" where
  "EAPOLType_LayerType g a = LayerType (EAPOLTypeMetadata g)"

definition ProtocolFamily_Decode :: "'p globals \<Rightarrow> ProtocolFamily \<Rightarrow> 'p Decoder" where
  "ProtocolFamily_Decode g a data p = call_DecodeWith (ProtocolFamilyMetadata g) data p"

definition ProtocolFamily_String :: "'p globals \<Rightarrow> ProtocolFamily \<Rightarrow> string" where
  "ProtocolFamily_String g a = Name (ProtocolFamilyMetadata g)"

definition ProtocolFamily_LayerType :: "'p globals \<Rightarrow> ProtocolFamily \<Rightarrow> LayerType" where
  "ProtocolFamily_LayerType g a = LayerType (ProtocolFamilyMetadata g)"

definition Dot11Type_Decode :: "'p globals \<Rightarrow> Dot11Type \<Rightarrow> 'p Decoder" where
  "Dot11Type_Decode g a data p = call_DecodeWith (Dot11TypeMetadata g) data p"

definition Dot11Type_String :: "'p globals \<Rightarrow> Dot11Type \<Rightarrow> string" where
  "Dot11Type_String g a = Name (Dot11TypeMetadata g)"

definition Dot11Type_LayerType :: "'p globals \<Rightarrow> Dot11Type \<Rightarrow> LayerType" where
  "Dot11Type_LayerType g a = LayerType (Dot11TypeMetadata g)"

section \<open>decodeIPv4or6 and init\<close>

text \<open>
  The decoders and layer types that enums.go uses and other files of package layers
  declare. They are parameters of the model.
\<close>

record 'p layers_decls =
  decodeIPv4 :: "'p Decoder"
  decodeIPv6 :: "'p Decoder"
  decodeUDP :: "'p Decoder"
  LayerTypeIPv4 :: LayerType
  LayerTypeUDP :: LayerType

text \<open>
  The verb \<open>%v\<close> of \<open>fmt\<close> on an unsigned integer: its decimal digits, most
  significant first, no padding.
\<close>

definition digit_char :: "nat \<Rightarrow> char" where
  "digit_char n = ''0123456789'' ! n"

fun fmt_v :: "nat \<Rightarrow> string" where
  "fmt_v n = (if n < 10 then [digit_char n] else fmt_v (n div 10) @ [digit_char (n mod 10)])"

declare fmt_v.simps [simp del]

text \<open>
  \<open>decodeIPv4or6\<close>. \<open>data[0]\<close> on an empty slice is a runtime panic; the shift
  \<open>>> 4\<close> on a \<open>byte\<close> is logical.
\<close>

definition decodeIPv4or6 :: "'p layers_decls \<Rightarrow> 'p Decoder" where
  "decodeIPv4or6 ext data p =
     (case data of
        [] \<Rightarrow> Panics IndexOutOfRange
      | b # rest \<Rightarrow>
          (let version = drop_bit 4 b in
           if version = 4 then decodeIPv4 ext data p
           else if version = 6 then decodeIPv6 ext data p
           else Returns (Some (''Invalid IP packet version '' @ fmt_v (unat version)), p)))"

text \<open>\<open>init\<close>: the two assignments of the source, in order.\<close>

definition init :: "'p layers_decls \<Rightarrow> 'p globals \<Rightarrow> 'p globals" where
  "init ext g =
     (let g1 = g\<lparr>EthernetTypeMetadata :=
                  \<lparr>DecodeWith = Some (decodeIPv4 ext), Name = ''IPv4'',
                   LayerType = LayerTypeIPv4 ext\<rparr>\<rparr>;
          g2 = g1\<lparr>IPProtocolMetadata :=
                  \<lparr>DecodeWith = Some (decodeUDP ext), Name = ''UDP'',
                   LayerType = LayerTypeUDP ext\<rparr>\<rparr>
      in g2)"

text \<open>The state of the variables once the package is initialised.\<close>

definition bootstrapped :: "'p layers_decls \<Rightarrow> 'p globals" where
  "bootstrapped ext = init ext zero_globals"

section \<open>The registry operations of the specification, on the variables of the source\<close>

text \<open>
  A protocol code is a fixed-width unsigned integer tagged with its family.
\<close>

datatype code =
    EthernetTypeC EthernetType
  | IPProtocolC IPProtocol
  | SCTPChunkTypeC SCTPChunkType
  | PPPTypeC PPPType
  | LinkTypeC LinkType
  | PPPoECodeC PPPoECode
  | FDDIFrameControlC FDDIFrameControl
  | EAPOLTypeC EAPOLType
  | ProtocolFamilyC ProtocolFamily
  | Dot11TypeC Dot11Type

text \<open>
  \<open>lookup(code)\<close>: the row the source holds for a code. A family's registry is its
  metadata variable, a single \<open>EnumMetadata\<close>, so the row read for a code is that
  variable's value whatever the numeric value of the code.
\<close>

fun registry_lookup :: "'p globals \<Rightarrow> code \<Rightarrow> 'p EnumMetadata" where
  "registry_lookup g (EthernetTypeC a) = EthernetTypeMetadata g"
| "registry_lookup g (IPProtocolC a) = IPProtocolMetadata g"
| "registry_lookup g (SCTPChunkTypeC a) = SCTPChunkTypeMetadata g"
| "registry_lookup g (PPPTypeC a) = PPPTypeMetadata g"
| "registry_lookup g (LinkTypeC a) = LinkTypeMetadata g"
| "registry_lookup g (PPPoECodeC a) = PPPoECodeMetadata g"
| "registry_lookup g (FDDIFrameControlC a) = FDDIFrameControlMetadata g"
| "registry_lookup g (EAPOLTypeC a) = EAPOLTypeMetadata g"
| "registry_lookup g (ProtocolFamilyC a) = ProtocolFamilyMetadata g"
| "registry_lookup g (Dot11TypeC a) = Dot11TypeMetadata g"

text \<open>
  \<open>register(code, row)\<close>: storing a row for a code is the assignment to the family's
  variable, the statement \<open>init\<close> is made of.
\<close>

fun registry_register :: "code \<Rightarrow> 'p EnumMetadata \<Rightarrow> 'p globals \<Rightarrow> 'p globals" where
  "registry_register (EthernetTypeC a) row g = g\<lparr>EthernetTypeMetadata := row\<rparr>"
| "registry_register (IPProtocolC a) row g = g\<lparr>IPProtocolMetadata := row\<rparr>"
| "registry_register (SCTPChunkTypeC a) row g = g\<lparr>SCTPChunkTypeMetadata := row\<rparr>"
| "registry_register (PPPTypeC a) row g = g\<lparr>PPPTypeMetadata := row\<rparr>"
| "registry_register (LinkTypeC a) row g = g\<lparr>LinkTypeMetadata := row\<rparr>"
| "registry_register (PPPoECodeC a) row g = g\<lparr>PPPoECodeMetadata := row\<rparr>"
| "registry_register (FDDIFrameControlC a) row g = g\<lparr>FDDIFrameControlMetadata := row\<rparr>"
| "registry_register (EAPOLTypeC a) row g = g\<lparr>EAPOLTypeMetadata := row\<rparr>"
| "registry_register (ProtocolFamilyC a) row g = g\<lparr>ProtocolFamilyMetadata := row\<rparr>"
| "registry_register (Dot11TypeC a) row g = g\<lparr>Dot11TypeMetadata := row\<rparr>"

subsection \<open>Method calls on a code\<close>

text \<open>
  \<open>C.Decode(data, p)\<close>, \<open>C.String()\<close> and \<open>C.LayerType()\<close> for a code \<open>C\<close> of any
  family: Go selects the method by the type of \<open>C\<close>. Five of the ten types declare no
  \<open>LayerType\<close> method (SCTPChunkType, PPPType, LinkType, PPPoECode,
  FDDIFrameControl): for a code of these types the call does not exist, which is
  \<open>None\<close>.
\<close>

fun method_Decode :: "'p globals \<Rightarrow> code \<Rightarrow> 'p Decoder" where
  "method_Decode g (EthernetTypeC a) = EthernetType_Decode g a"
| "method_Decode g (IPProtocolC a) = IPProtocol_Decode g a"
| "method_Decode g (SCTPChunkTypeC a) = SCTPChunkType_Decode g a"
| "method_Decode g (PPPTypeC a) = PPPType_Decode g a"
| "method_Decode g (LinkTypeC a) = LinkType_Decode g a"
| "method_Decode g (PPPoECodeC a) = PPPoECode_Decode g a"
| "method_Decode g (FDDIFrameControlC a) = FDDIFrameControl_Decode g a"
| "method_Decode g (EAPOLTypeC a) = EAPOLType_Decode g a"
| "method_Decode g (ProtocolFamilyC a) = ProtocolFamily_Decode g a"
| "method_Decode g (Dot11TypeC a) = Dot11Type_Decode g a"

fun method_String :: "'p globals \<Rightarrow> code \<Rightarrow> string" where
  "method_String g (EthernetTypeC a) = EthernetType_String g a"
| "method_String g (IPProtocolC a) = IPProtocol_String g a"
| "method_String g (SCTPChunkTypeC a) = SCTPChunkType_String g a"
| "method_String g (PPPTypeC a) = PPPType_String g a"
| "method_String g (LinkTypeC a) = LinkType_String g a"
| "method_String g (PPPoECodeC a) = PPPoECode_String g a"
| "method_String g (FDDIFrameControlC a) = FDDIFrameControl_String g a"
| "method_String g (EAPOLTypeC a) = EAPOLType_String g a"
| "method_String g (ProtocolFamilyC a) = ProtocolFamily_String g a"
| "method_String g (Dot11TypeC a) = Dot11Type_String g a"

fun method_LayerType :: "'p globals \<Rightarrow> code \<Rightarrow> LayerType option" where
  "method_LayerType g (EthernetTypeC a) = Some (EthernetType_LayerType g a)"
| "method_LayerType g (IPProtocolC a) = Some (IPProtocol_LayerType g a)"
| "method_LayerType g (SCTPChunkTypeC a) = None"
| "method_LayerType g (PPPTypeC a) = None"
| "method_LayerType g (LinkTypeC a) = None"
| "method_LayerType g (PPPoECodeC a) = None"
| "method_LayerType g (FDDIFrameControlC a) = None"
| "method_LayerType g (EAPOLTypeC a) = Some (EAPOLType_LayerType g a)"
| "method_LayerType g (ProtocolFamilyC a) = Some (ProtocolFamily_LayerType g a)"
| "method_LayerType g (Dot11TypeC a) = Some (Dot11Type_LayerType g a)"

fun has_LayerType_method :: "code \<Rightarrow> bool" where
  "has_LayerType_method (EthernetTypeC a) = True"
| "has_LayerType_method (IPProtocolC a) = True"
| "has_LayerType_method (SCTPChunkTypeC a) = False"
| "has_LayerType_method (PPPTypeC a) = False"
| "has_LayerType_method (LinkTypeC a) = False"
| "has_LayerType_method (PPPoECodeC a) = False"
| "has_LayerType_method (FDDIFrameControlC a) = False"
| "has_LayerType_method (EAPOLTypeC a) = True"
| "has_LayerType_method (ProtocolFamilyC a) = True"
| "has_LayerType_method (Dot11TypeC a) = True"

section \<open>The registry as the specification words it\<close>

text \<open>
  The specification's dispatch row: a decoding routine, a display name and a layer
  classification. Its registry maps every code of a family to a row, and
  \<open>lookup(code)\<close> returns the row of the code;
  \<open>decode(code, buffer, accumulator)\<close> invokes
  \<open>lookup(code).decodingRoutine(buffer, accumulator)\<close>; \<open>name(code)\<close> is
  \<open>lookup(code).displayName\<close>; \<open>layerClass(code)\<close> is \<open>lookup(code).layerClass\<close>.
  These definitions follow the specification and use none of the methods above.
\<close>

record 'p Row =
  decodingRoutine :: "'p Decoder"
  displayName :: string
  layerClass :: LayerType

type_synonym 'p Registry = "code \<Rightarrow> 'p Row"

definition spec_lookup :: "'p Registry \<Rightarrow> code \<Rightarrow> 'p Row" where
  "spec_lookup reg c = reg c"

definition spec_decode :: "'p Registry \<Rightarrow> code \<Rightarrow> 'p Decoder" where
  "spec_decode reg c buffer accumulator =
     decodingRoutine (spec_lookup reg c) buffer accumulator"

definition spec_name :: "'p Registry \<Rightarrow> code \<Rightarrow> string" where
  "spec_name reg c = displayName (spec_lookup reg c)"

definition spec_layerClass :: "'p Registry \<Rightarrow> code \<Rightarrow> LayerType" where
  "spec_layerClass reg c = layerClass (spec_lookup reg c)"

text \<open>
  The registry that a state of the variables stands for. A stored struct is a row
  whose routine is the stored decoder; invoking the routine of a struct whose
  \<open>DecodeWith\<close> is nil is the nil method call of Go, a panic.
\<close>

definition row_of :: "'p EnumMetadata \<Rightarrow> 'p Row" where
  "row_of m =
     \<lparr>decodingRoutine =
        (case DecodeWith m of
           Some routine \<Rightarrow> routine
         | None \<Rightarrow> (\<lambda>buffer accumulator. Panics NilDereference)),
      displayName = Name m,
      layerClass = LayerType m\<rparr>"

definition registry_of :: "'p globals \<Rightarrow> 'p Registry" where
  "registry_of g = (\<lambda>c. row_of (registry_lookup g c))"

section \<open>Auxiliary definitions for stating and evaluating the properties\<close>

text \<open>
  \<open>mentions s r\<close>: the call returned an error (it did not panic and did not return
  \<open>nil\<close>) and the text of the error contains \<open>s\<close>.
\<close>

definition mentions :: "string \<Rightarrow> (error option \<times> 'p) exec \<Rightarrow> bool" where
  "mentions s r = (case r of Returns (Some msg, p) \<Rightarrow> sublist s msg | _ \<Rightarrow> False)"

text \<open>
  One instance of the declarations of the other files, for evaluating the model on
  concrete buffers: each decoder checks the length of its fixed header and counts the
  layer in the packet builder, a natural number.
\<close>

definition stub_decls :: "nat layers_decls" where
  "stub_decls =
     \<lparr>decodeIPv4 = (\<lambda>data p. if length data < 20 then Returns (Some ''Invalid ip4 header'', p)
                              else Returns (None, Suc p)),
      decodeIPv6 = (\<lambda>data p. if length data < 40 then Returns (Some ''Invalid ip6 header'', p)
                              else Returns (None, Suc p)),
      decodeUDP = (\<lambda>data p. if length data < 8 then Returns (Some ''Invalid UDP header'', p)
                             else Returns (None, Suc p)),
      LayerTypeIPv4 = 20, LayerTypeUDP = 45\<rparr>"

section \<open>Constants and the 802.11 category\<close>

text \<open>
  C8. The named constants have the standards-defined values: EthernetTypeIPv4 = 0x0800,
  EthernetTypeARP = 0x0806, EthernetTypeIPv6 = 0x86DD, IPProtocolTCP = 6,
  IPProtocolUDP = 17, IPProtocolICMPv6 = 58, LinkTypeEthernet = 1, LinkTypeRaw = 101,
  PPPTypeIPv4 = 0x0021 and the 802.11 management beacon type = 0x20.
\<close>

theorem protocol_constants_exact:
  "unat EthernetTypeIPv4 = 0x0800 \<and> unat EthernetTypeARP = 0x0806 \<and>
   unat EthernetTypeIPv6 = 0x86DD \<and> unat IPProtocolTCP = 6 \<and> unat IPProtocolUDP = 17 \<and>
   unat IPProtocolICMPv6 = 58 \<and> unat LinkTypeEthernet = 1 \<and> unat LinkTypeRaw = 101 \<and>
   unat PPPTypeIPv4 = 0x0021 \<and> unat Dot11TypeMgmtBeacon = 0x20"
  by (simp add: EthernetTypeIPv4_def EthernetTypeARP_def EthernetTypeIPv6_def
      IPProtocolTCP_def IPProtocolUDP_def IPProtocolICMPv6_def LinkTypeEthernet_def
      LinkTypeRaw_def PPPTypeIPv4_def Dot11TypeMgmtBeacon_def)


lemma and_3_take_bit: "(d :: 8 word) AND 3 = take_bit 2 d"
  using take_bit_eq_mask [of 2 d] by (simp add: mask_eq_exp_minus_1)

lemma unat_MainType: "unat (MainType d) = unat d mod 4"
  by (simp add: MainType_def dot11TypeMask_def and_3_take_bit take_bit_eq_mod unat_mod)

lemma MainType_cases:
  "MainType d \<in> {Dot11TypeMgmt, Dot11TypeCtrl, Dot11TypeData, Dot11TypeReserved}"
proof -
  have "unat (MainType d) < 4" by (simp add: unat_MainType)
  then have "unat (MainType d) \<in> {0, 1, 2, 3}" by auto
  then have "MainType d \<in> {0, 1, 2, 3}"
    by (auto simp: word_unat_eq_iff)
  then show ?thesis
    by (simp add: Dot11TypeMgmt_def Dot11TypeCtrl_def Dot11TypeData_def Dot11TypeReserved_def)
qed

text \<open>
  C9. For every Dot11Type value \<open>d\<close>, \<open>d.MainType()\<close> is \<open>d\<close> masked to its low two
  bits, that is \<open>d mod 4\<close>; it is one of Mgmt (0), Ctrl (1), Data (2), Reserved (3);
  MainType is idempotent; the beacon code 0x20 has MainType Mgmt.
\<close>

theorem MainType_category:
  "MainType d = d AND 3 \<and> unat (MainType d) = unat d mod 4 \<and>
   MainType d \<in> {Dot11TypeMgmt, Dot11TypeCtrl, Dot11TypeData, Dot11TypeReserved} \<and>
   unat Dot11TypeMgmt = 0 \<and> unat Dot11TypeCtrl = 1 \<and> unat Dot11TypeData = 2 \<and>
   unat Dot11TypeReserved = 3 \<and>
   MainType (MainType d) = MainType d \<and>
   unat Dot11TypeMgmtBeacon = 0x20 \<and> MainType Dot11TypeMgmtBeacon = Dot11TypeMgmt"
proof -
  have mask: "MainType d = d AND 3"
    by (simp add: MainType_def dot11TypeMask_def)
  have idem: "MainType (MainType d) = MainType d"
    by (simp add: MainType_def)
  have beacon: "MainType Dot11TypeMgmtBeacon = Dot11TypeMgmt"
    by (simp add: MainType_def Dot11TypeMgmtBeacon_def Dot11TypeMgmt_def dot11TypeMask_def)
  show ?thesis
    using mask idem beacon unat_MainType [of d] MainType_cases [of d]
    by (simp add: Dot11TypeMgmt_def Dot11TypeCtrl_def Dot11TypeData_def Dot11TypeReserved_def
        Dot11TypeMgmtBeacon_def)
qed

text \<open>
  C10. The link-type constants LinkTypeC_HDLC and LinkTypeLTalk are equal, both 104:
  they are one code of the link-type family, so storing a row for one stores it for the
  other, and lookup, Decode and String give the same for both.
\<close>

theorem LinkType_104_aliases:
  "LinkTypeC_HDLC = LinkTypeLTalk \<and> unat LinkTypeC_HDLC = 104 \<and> unat LinkTypeLTalk = 104 \<and>
   LinkTypeC LinkTypeC_HDLC = LinkTypeC LinkTypeLTalk \<and>
   registry_register (LinkTypeC LinkTypeC_HDLC) row g = registry_register (LinkTypeC LinkTypeLTalk) row g \<and>
   registry_lookup g (LinkTypeC LinkTypeC_HDLC) = registry_lookup g (LinkTypeC LinkTypeLTalk) \<and>
   LinkType_Decode g LinkTypeC_HDLC data p = LinkType_Decode g LinkTypeLTalk data p \<and>
   LinkType_String g LinkTypeC_HDLC = LinkType_String g LinkTypeLTalk"
  by (simp add: LinkTypeC_HDLC_def LinkTypeLTalk_def)

section \<open>The version-sniffing decoder\<close>

text \<open>
  C3. For every non-empty buffer: if the high four bits of the first byte are 4,
  decodeIPv4or6 returns what the IPv4 decoder returns on the buffer; if they are 6,
  what the IPv6 decoder returns; for any other value \<open>v\<close> it returns an error whose
  text contains the decimal digits of \<open>v\<close> (a buffer starting with 0x90 gives an error
  mentioning 9).
\<close>

theorem decodeIPv4or6_sniffs:
  assumes "data \<noteq> []"
  shows "(drop_bit 4 (hd data) = 4 \<longrightarrow> decodeIPv4or6 ext data p = decodeIPv4 ext data p) \<and>
         (drop_bit 4 (hd data) = 6 \<longrightarrow> decodeIPv4or6 ext data p = decodeIPv6 ext data p) \<and>
         (drop_bit 4 (hd data) \<noteq> 4 \<and> drop_bit 4 (hd data) \<noteq> 6 \<longrightarrow>
            decodeIPv4or6 ext data p =
              Returns (Some (''Invalid IP packet version '' @ fmt_v (unat (drop_bit 4 (hd data)))), p) \<and>
            mentions (fmt_v (unat (drop_bit 4 (hd data)))) (decodeIPv4or6 ext data p))"
proof -
  from assms obtain b rest where d: "data = b # rest" by (cases data) auto
  have s: "sublist (fmt_v n) (''Invalid IP packet version '' @ fmt_v n)" for n
    by (rule sublist_append_leftI)
  show ?thesis
    unfolding d using s by (simp add: decodeIPv4or6_def Let_def mentions_def del: sublist_Cons_right)
qed

theorem decodeIPv4or6_sniffs_witness:
  "[0x45 :: byte] \<noteq> [] \<and> drop_bit 4 (hd [0x45 :: byte]) = 4 \<and>
   decodeIPv4or6 stub_decls [0x45] 0 = decodeIPv4 stub_decls [0x45] 0 \<and>
   drop_bit 4 (hd [0x60 :: byte]) = 6 \<and>
   decodeIPv4or6 stub_decls [0x60] 0 = decodeIPv6 stub_decls [0x60] 0 \<and>
   drop_bit 4 (hd [0x90 :: byte]) \<noteq> 4 \<and> drop_bit 4 (hd [0x90 :: byte]) \<noteq> 6 \<and>
   decodeIPv4or6 stub_decls [0x90] 0 = Returns (Some ''Invalid IP packet version 9'', 0) \<and>
   mentions ''9'' (decodeIPv4or6 stub_decls [0x90] 0)"
proof -
  have v4: "decodeIPv4or6 stub_decls [0x45] 0 = decodeIPv4 stub_decls [0x45] 0"
    using decodeIPv4or6_sniffs [of "[0x45]" stub_decls 0] by simp
  have v6: "decodeIPv4or6 stub_decls [0x60] 0 = decodeIPv6 stub_decls [0x60] 0"
    using decodeIPv4or6_sniffs [of "[0x60]" stub_decls 0] by simp
  have v9: "decodeIPv4or6 stub_decls [0x90] 0 = Returns (Some ''Invalid IP packet version 9'', 0)
            \<and> mentions ''9'' (decodeIPv4or6 stub_decls [0x90] 0)"
    using decodeIPv4or6_sniffs [of "[0x90]" stub_decls 0]
    by (auto simp: fmt_v.simps digit_char_def)
  show ?thesis using v4 v6 v9 by auto
qed

text \<open>
  C4, evaluated where the code departs from it. On the empty buffer \<open>data[0]\<close> is out
  of range and decodeIPv4or6 panics; it does not return an error value. After
  initialisation the link-type variable still holds a nil decoder, so Decode on any link
  type panics as well.
\<close>

theorem decodeIPv4or6_empty_panics:
  "decodeIPv4or6 ext [] p = Panics IndexOutOfRange \<and>
   LinkType_Decode (bootstrapped ext) a data p = Panics NilDereference"
  by (simp add: decodeIPv4or6_def LinkType_Decode_def bootstrapped_def init_def Let_def
      zero_globals_def zero_EnumMetadata_def call_DecodeWith_def)

section \<open>Registration, lookup and dispatch\<close>

text \<open>
  C7. Storing row R1 and then row R2 for a code C, and then looking C up, returns R2.
  Storing is a total function of the state: it cannot fail.
\<close>

theorem last_write_wins:
  "registry_lookup (registry_register c r2 (registry_register c r1 g)) c = r2"
  by (cases c) simp_all

lemmas dispatch_defs =
  spec_decode_def spec_name_def spec_layerClass_def spec_lookup_def registry_of_def
  row_of_def call_DecodeWith_def

text \<open>
  C5, as the code has it. For every code C of every family, every buffer and every
  packet builder: C.Decode(buf, acc) is the registry's decode on C, that is the
  decoding routine of C's looked-up row invoked on (buf, acc) (when the row's DecodeWith
  is the decoder d, it is d(buf, acc)); C.String() is the display name of the looked-up
  row; and, for the five types that declare a LayerType method (EthernetType,
  IPProtocol, EAPOLType, ProtocolFamily, Dot11Type), C.LayerType() is the layer
  classification of the looked-up row. The other five types have no LayerType method.
\<close>

theorem self_dispatch_consistency:
  "method_Decode g c data p = spec_decode (registry_of g) c data p \<and>
   (DecodeWith (registry_lookup g c) = Some d \<longrightarrow> method_Decode g c data p = d data p) \<and>
   method_String g c = spec_name (registry_of g) c \<and>
   method_LayerType g c =
     (if has_LayerType_method c then Some (spec_layerClass (registry_of g) c) else None)"
proof (cases c)
  case (EthernetTypeC a)
  then show ?thesis
    by (simp add: dispatch_defs EthernetType_Decode_def EthernetType_String_def
        EthernetType_LayerType_def split: option.splits)
next
  case (IPProtocolC a)
  then show ?thesis
    by (simp add: dispatch_defs IPProtocol_Decode_def IPProtocol_String_def
        IPProtocol_LayerType_def split: option.splits)
next
  case (SCTPChunkTypeC a)
  then show ?thesis
    by (simp add: dispatch_defs SCTPChunkType_Decode_def SCTPChunkType_String_def split: option.splits)
next
  case (PPPTypeC a)
  then show ?thesis
    by (simp add: dispatch_defs PPPType_Decode_def PPPType_String_def split: option.splits)
next
  case (LinkTypeC a)
  then show ?thesis
    by (simp add: dispatch_defs LinkType_Decode_def LinkType_String_def split: option.splits)
next
  case (PPPoECodeC a)
  then show ?thesis
    by (simp add: dispatch_defs PPPoECode_Decode_def PPPoECode_String_def split: option.splits)
next
  case (FDDIFrameControlC a)
  then show ?thesis
    by (simp add: dispatch_defs FDDIFrameControl_Decode_def FDDIFrameControl_String_def split: option.splits)
next
  case (EAPOLTypeC a)
  then show ?thesis
    by (simp add: dispatch_defs EAPOLType_Decode_def EAPOLType_String_def
        EAPOLType_LayerType_def split: option.splits)
next
  case (ProtocolFamilyC a)
  then show ?thesis
    by (simp add: dispatch_defs ProtocolFamily_Decode_def ProtocolFamily_String_def
        ProtocolFamily_LayerType_def split: option.splits)
next
  case (Dot11TypeC a)
  then show ?thesis
    by (simp add: dispatch_defs Dot11Type_Decode_def Dot11Type_String_def
        Dot11Type_LayerType_def split: option.splits)
qed

theorem self_dispatch_consistency_witness:
  "DecodeWith (registry_lookup (bootstrapped stub_decls) (IPProtocolC 200))
     = Some (decodeUDP stub_decls) \<and>
   method_Decode (bootstrapped stub_decls) (IPProtocolC 200) (replicate 8 0) 0
     = Returns (None, 1) \<and>
   method_Decode (bootstrapped stub_decls) (IPProtocolC 200) [] 0
     = Returns (Some ''Invalid UDP header'', 0) \<and>
   method_String (bootstrapped stub_decls) (IPProtocolC 200) = ''UDP'' \<and>
   method_LayerType (bootstrapped stub_decls) (IPProtocolC 200) = Some 45 \<and>
   method_Decode (bootstrapped stub_decls) (LinkTypeC LinkTypeEthernet) [] 0
     = spec_decode (registry_of (bootstrapped stub_decls)) (LinkTypeC LinkTypeEthernet) [] 0"
proof -
  have row: "DecodeWith (registry_lookup (bootstrapped stub_decls) (IPProtocolC 200))
               = Some (decodeUDP stub_decls)"
    by (simp add: bootstrapped_def init_def Let_def)
  have reg: "registry_of (bootstrapped stub_decls) (IPProtocolC 200)
               = \<lparr>decodingRoutine = decodeUDP stub_decls, displayName = ''UDP'',
                  layerClass = 45\<rparr>"
    by (simp add: registry_of_def row_of_def bootstrapped_def init_def Let_def stub_decls_def)
  have udp8: "decodeUDP stub_decls (replicate 8 0) 0 = Returns (None, 1)"
    by (simp add: stub_decls_def)
  have udp0: "decodeUDP stub_decls [] 0 = Returns (Some ''Invalid UDP header'', 0)"
    by (simp add: stub_decls_def)
  have d8: "method_Decode (bootstrapped stub_decls) (IPProtocolC 200) (replicate 8 0) 0
              = Returns (None, 1)"
    using row udp8
      self_dispatch_consistency
        [of "bootstrapped stub_decls" "IPProtocolC 200" "replicate 8 0" 0 "decodeUDP stub_decls"]
    by auto
  have d0: "method_Decode (bootstrapped stub_decls) (IPProtocolC 200) [] 0
              = Returns (Some ''Invalid UDP header'', 0)"
    using row udp0
      self_dispatch_consistency
        [of "bootstrapped stub_decls" "IPProtocolC 200" "[]" 0 "decodeUDP stub_decls"]
    by auto
  have nm: "method_String (bootstrapped stub_decls) (IPProtocolC 200) = ''UDP'' \<and>
            method_LayerType (bootstrapped stub_decls) (IPProtocolC 200) = Some 45"
    using reg
      self_dispatch_consistency
        [of "bootstrapped stub_decls" "IPProtocolC 200" "[]" 0 "decodeUDP stub_decls"]
    by (auto simp: spec_name_def spec_layerClass_def spec_lookup_def)
  have lt: "method_Decode (bootstrapped stub_decls) (LinkTypeC LinkTypeEthernet) [] 0
              = spec_decode (registry_of (bootstrapped stub_decls))
                  (LinkTypeC LinkTypeEthernet) [] 0"
    using self_dispatch_consistency
        [of "bootstrapped stub_decls" "LinkTypeC LinkTypeEthernet" "[]" 0 "decodeUDP stub_decls"]
    by auto
  show ?thesis
    using row d8 d0 nm lt by simp
qed

text \<open>
  C5 as stated fails on the LayerType part: LinkType declares no LayerType method, so
  for the code LinkTypeEthernet there is no C.LayerType() that could equal the layer
  classification of the looked-up row.
\<close>

theorem LinkType_declares_no_LayerType:
  "method_LayerType (bootstrapped stub_decls) (LinkTypeC LinkTypeEthernet) \<noteq>
     Some (spec_layerClass (registry_of (bootstrapped stub_decls)) (LinkTypeC LinkTypeEthernet))"
  by simp

text \<open>
  C1, evaluated where the code departs from it. EthernetTypeARP and EthernetTypeIPv4
  are distinct codes of one family; after initialisation the name of EthernetTypeIPv4 is
  IPv4; storing a row named ARP for EthernetTypeARP makes the name of EthernetTypeIPv4
  ARP, because the family has one variable and not one row per code.
\<close>

theorem register_overwrites_other_codes:
  "EthernetTypeARP \<noteq> EthernetTypeIPv4 \<and>
   EthernetType_String (bootstrapped ext) EthernetTypeIPv4 = ''IPv4'' \<and>
   EthernetType_String
     (registry_register (EthernetTypeC EthernetTypeARP)
        \<lparr>DecodeWith = Some (errorFunc ''arp''), Name = ''ARP'', LayerType = 10\<rparr>
        (bootstrapped ext)) EthernetTypeIPv4 = ''ARP'' \<and>
   registry_lookup (registry_register (EthernetTypeC EthernetTypeARP) row g)
     (EthernetTypeC EthernetTypeIPv4) = row"
  by (simp add: EthernetTypeARP_def EthernetTypeIPv4_def EthernetType_String_def
      bootstrapped_def init_def Let_def)

section \<open>Initialisation\<close>

text \<open>
  C6. After \<open>init\<close>, Ethernet type 0x0800 has the IPv4 decoder, the name IPv4 and the
  layer type IPv4: a buffer that the IPv4 decoder accepts is decoded successfully through
  code 0x0800, whose layer type is reported as LayerTypeIPv4.
\<close>

theorem init_registers_EthernetTypeIPv4:
  assumes "decodeIPv4 ext data p = Returns (None, p')"
  shows "registry_lookup (init ext g) (EthernetTypeC EthernetTypeIPv4) =
           \<lparr>DecodeWith = Some (decodeIPv4 ext), Name = ''IPv4'', LayerType = LayerTypeIPv4 ext\<rparr> \<and>
         EthernetType_Decode (init ext g) EthernetTypeIPv4 data p = Returns (None, p') \<and>
         EthernetType_String (init ext g) EthernetTypeIPv4 = ''IPv4'' \<and>
         EthernetType_LayerType (init ext g) EthernetTypeIPv4 = LayerTypeIPv4 ext"
  using assms
  by (simp add: init_def Let_def EthernetType_Decode_def EthernetType_String_def
      EthernetType_LayerType_def call_DecodeWith_def)

theorem init_registers_EthernetTypeIPv4_witness:
  "decodeIPv4 stub_decls (0x45 # replicate 19 0) 0 = Returns (None, 1) \<and>
   unat EthernetTypeIPv4 = 0x0800 \<and>
   EthernetType_Decode (bootstrapped stub_decls) EthernetTypeIPv4 (0x45 # replicate 19 0) 0
     = Returns (None, 1) \<and>
   EthernetType_String (bootstrapped stub_decls) EthernetTypeIPv4 = ''IPv4'' \<and>
   EthernetType_LayerType (bootstrapped stub_decls) EthernetTypeIPv4 = LayerTypeIPv4 stub_decls"
proof -
  have h: "decodeIPv4 stub_decls (0x45 # replicate 19 0) 0 = Returns (None, 1)"
    by (simp add: stub_decls_def)
  show ?thesis
    using h init_registers_EthernetTypeIPv4 [OF h, of zero_globals]
    by (simp add: bootstrapped_def EthernetTypeIPv4_def)
qed

text \<open>
  C2, evaluated where the code departs from it. After initialisation, Decode on the
  unregistered IP protocol code 200 runs the UDP decoder, exactly as Decode on code 17
  does: no error naming 200 is produced. In the link-type family, which \<open>init\<close> leaves
  untouched, Decode on any code panics on the nil decoder.
\<close>

theorem unregistered_code_runs_family_row:
  "IPProtocol_Decode (bootstrapped ext) 200 data p = decodeUDP ext data p \<and>
   IPProtocol_Decode (bootstrapped ext) 200 data p =
     IPProtocol_Decode (bootstrapped ext) IPProtocolUDP data p \<and>
   LinkType_Decode (bootstrapped ext) a data p = Panics NilDereference"
  by (simp add: IPProtocol_Decode_def LinkType_Decode_def bootstrapped_def init_def Let_def
      zero_globals_def zero_EnumMetadata_def call_DecodeWith_def)

end
